theory Spec2Isabelle
  imports Complex_Main "HOL-Library.Sublist" "HOL-Library.Multiset"
begin

section \<open>Python values used by the billing system\<close>

text \<open>
  A Python \<open>str\<close> is modelled as a \<open>string\<close> with one \<open>char\<close> per code point, for
  the code points U+0000 to U+00FF (Latin-1); this is not a UTF-8 encoding. Python's
  unbounded \<open>int\<close> is \<open>int\<close>. Prices and totals are Python floats in the source; they
  are modelled as exact rationals (\<open>rat\<close>), so the rounding of binary floating point is
  not part of the model. Every price of the product catalog is a whole number.
\<close>

type_synonym money = rat

text \<open>
  The exceptions the modelled code can raise. The two database exceptions carry the
  text that \<open>str(e)\<close> shows; the text of a \<open>ValueError\<close> is never displayed by the
  application and is left out.
\<close>

datatype py_error =
    OperationalError string
  | OverflowError string
  | ValueError

subsection \<open>Character classes: \<open>str.isspace\<close>, \<open>str.isdecimal\<close>, \<open>str.isdigit\<close>\<close>

text \<open>
  Restricted to U+0000..U+00FF, the white space of \<open>str.strip()\<close> is TAB, LF, VT, FF,
  CR, the separators U+001C..U+001F, SPACE, U+0085 and U+00A0. The decimal digits are
  \<open>0\<close> to \<open>9\<close>. \<open>str.isdigit\<close> accepts in addition the superscript digits U+00B2,
  U+00B3 and U+00B9, which have the Unicode property Numeric_Type=Digit without being
  decimal digits.
\<close>

definition py_isspace :: "char \<Rightarrow> bool" where
  "py_isspace c = ((of_char c :: nat) \<in> set [9, 10, 11, 12, 13, 28, 29, 30, 31, 32, 133, 160])"

definition py_isdecimal :: "char \<Rightarrow> bool" where
  "py_isdecimal c = (48 \<le> (of_char c :: nat) \<and> (of_char c :: nat) \<le> 57)"

definition py_isdigit :: "char \<Rightarrow> bool" where
  "py_isdigit c = (py_isdecimal c \<or> (of_char c :: nat) \<in> set [178, 179, 185])"

text \<open>\<open>s.isdigit()\<close>: every character is a digit and there is at least one.\<close>

definition str_isdigit :: "string \<Rightarrow> bool" where
  "str_isdigit s = (s \<noteq> [] \<and> list_all py_isdigit s)"

text \<open>\<open>s.strip()\<close> with no argument removes leading and trailing white space.\<close>

definition strip :: "string \<Rightarrow> string" where
  "strip s = rev (dropWhile py_isspace (rev (dropWhile py_isspace s)))"

subsection \<open>Conversions between numbers and text\<close>

text \<open>The value of a string of decimal digits, most significant digit first.\<close>

definition digits_val :: "string \<Rightarrow> nat" where
  "digits_val s = foldl (\<lambda>a c. 10 * a + (of_char c - 48)) 0 s"

text \<open>
  \<open>int(s)\<close> for a string: surrounding white space and one sign are allowed, the rest
  must be decimal digits; anything else raises \<open>ValueError\<close>. (Underscores between
  digits, which \<open>int\<close> also accepts, are not modelled: the application only converts
  strings that passed \<open>isdigit\<close>, which contain none.)
\<close>

definition py_int :: "string \<Rightarrow> py_error + int" where
  "py_int s =
     (let t = strip s;
          body = (case t of [] \<Rightarrow> [] | c # r \<Rightarrow> if c = CHR ''-'' \<or> c = CHR ''+'' then r else t);
          neg = (case t of [] \<Rightarrow> False | c # r \<Rightarrow> c = CHR ''-'')
      in if body \<noteq> [] \<and> list_all py_isdecimal body
         then Inr (if neg then - int (digits_val body) else int (digits_val body))
         else Inl ValueError)"

text \<open>
  \<open>float(s)\<close> for the plain decimal notation (sign, digits, optional fraction), which is
  the notation of every catalog entry. The exponent notation, \<open>inf\<close>, \<open>nan\<close> and
  underscores are not modelled.
\<close>

definition py_float :: "string \<Rightarrow> py_error + money" where
  "py_float s =
     (let t = strip s;
          body = (case t of [] \<Rightarrow> [] | c # r \<Rightarrow> if c = CHR ''-'' \<or> c = CHR ''+'' then r else t);
          neg = (case t of [] \<Rightarrow> False | c # r \<Rightarrow> c = CHR ''-'');
          ip = takeWhile py_isdecimal body;
          rest = dropWhile py_isdecimal body;
          fr = (case rest of [] \<Rightarrow> [] | c # r \<Rightarrow> r);
          ok = (case rest of [] \<Rightarrow> ip \<noteq> []
                | c # r \<Rightarrow> c = CHR ''.'' \<and> list_all py_isdecimal r \<and> (ip \<noteq> [] \<or> r \<noteq> []));
          v = of_nat (digits_val ip) + of_nat (digits_val fr) / 10 ^ length fr
      in if ok then Inr (if neg then - v else v) else Inl ValueError)"

text \<open>\<open>str(n)\<close> for an integer: decimal digits, with a minus sign when negative.\<close>

definition digit_char :: "nat \<Rightarrow> char" where
  "digit_char n = ''0123456789'' ! n"

fun str_nat :: "nat \<Rightarrow> string" where
  "str_nat n = (if n < 10 then [digit_char n] else str_nat (n div 10) @ [digit_char (n mod 10)])"

declare str_nat.simps [simp del]

definition str_int :: "int \<Rightarrow> string" where
  "str_int i = (if i < 0 then ''-'' @ str_nat (nat (- i)) else str_nat (nat i))"

text \<open>
  The format \<open>{x:.2f}\<close>: the value rounded to two decimals, ties to the even
  neighbour, the sign of a negative value kept.
\<close>

definition round_half_even :: "rat \<Rightarrow> nat" where
  "round_half_even y =
     (let f = nat \<lfloor>y\<rfloor>; r = y - of_int \<lfloor>y\<rfloor>
      in if r < 1 / 2 then f else if 1 / 2 < r then f + 1 else if even f then f else f + 1)"

definition fmt2 :: "money \<Rightarrow> string" where
  "fmt2 x =
     (let c = round_half_even (\<bar>x\<bar> * 100)
      in (if x < 0 then ''-'' else '''') @ str_nat (c div 100) @ ''.''
           @ [digit_char ((c mod 100) div 10), digit_char (c mod 10)])"

text \<open>
  \<open>s.split(sep)\<close> for a non-empty separator: the pieces between the non-overlapping
  occurrences of \<open>sep\<close>, scanned from the left. \<open>acc\<close> holds the current piece,
  reversed.
\<close>

function split_acc :: "string \<Rightarrow> string \<Rightarrow> string \<Rightarrow> string list" where
  "split_acc sep acc s =
     (if s = [] then [rev acc]
      else if sep \<noteq> [] \<and> take (length sep) s = sep
           then rev acc # split_acc sep [] (drop (length sep) s)
           else split_acc sep (hd s # acc) (tl s))"
  by pat_completeness auto
termination
  by (relation "measure (\<lambda>(sep, acc, s). length s)") auto

declare split_acc.simps [simp del]

definition py_split :: "string \<Rightarrow> string \<Rightarrow> string list" where
  "py_split s sep = split_acc sep [] s"

section \<open>The persistence layer (db.py)\<close>

text \<open>
  The store is the SQLite file \<open>bills.db\<close>. Its state is what a new connection sees:
  for each of the two tables, whether it exists and, if so, its rows in rowid order and
  its entry of \<open>sqlite_sequence\<close> (the largest rowid an AUTOINCREMENT table ever
  handed out, 0 before the first insert).
\<close>

record bill_row =
  b_id :: int
  b_customer :: string
  b_date :: string
  b_total :: money

record item_row =
  i_id :: int
  i_bill_id :: int
  i_product :: string
  i_price :: money
  i_quantity :: int

record 'r table =
  t_rows :: "'r list"
  t_seq :: int

record db =
  bills_t :: "bill_row table option"
  items_t :: "item_row table option"

type_synonym cart_line = "string \<times> money \<times> int"
type_synonym bill_tuple = "int \<times> string \<times> string \<times> money"

definition empty_table :: "'r table" where
  "empty_table = \<lparr>t_rows = [], t_seq = 0\<rparr>"

text \<open>A database file in which no table has been created yet.\<close>

definition new_file :: db where
  "new_file = \<lparr>bills_t = None, items_t = None\<rparr>"

definition bill_rows :: "db \<Rightarrow> bill_row list" where
  "bill_rows d = (case bills_t d of None \<Rightarrow> [] | Some t \<Rightarrow> t_rows t)"

definition item_rows :: "db \<Rightarrow> item_row list" where
  "item_rows d = (case items_t d of None \<Rightarrow> [] | Some t \<Rightarrow> t_rows t)"

subsection \<open>\<open>init_db\<close>\<close>

text \<open>
  Two \<open>CREATE TABLE IF NOT EXISTS\<close> statements and a commit: a table that exists is
  left as it is, a missing one is created empty.
\<close>

definition create_if_absent :: "'r table option \<Rightarrow> 'r table option" where
  "create_if_absent t = (case t of None \<Rightarrow> Some empty_table | Some x \<Rightarrow> Some x)"

definition init_db :: "db \<Rightarrow> py_error option \<times> db" where
  "init_db d =
     (None, \<lparr>bills_t = create_if_absent (bills_t d), items_t = create_if_absent (items_t d)\<rparr>)"

subsection \<open>Row identifiers of an AUTOINCREMENT table\<close>

definition MAX_ROWID :: int where
  "MAX_ROWID = 9223372036854775807"

fun max_rowid :: "int list \<Rightarrow> int" where
  "max_rowid [] = 0"
| "max_rowid [x] = x"
| "max_rowid (x # y # ys) = max x (max_rowid (y # ys))"

text \<open>
  The rowid of a new row is one more than the largest rowid of the table (1 for an empty
  table), and at least one more than the recorded sequence value. When either has
  reached the largest 64-bit integer the insert fails with SQLITE_FULL, which Python
  raises as \<open>OperationalError\<close>.
\<close>

definition new_rowid :: "int list \<Rightarrow> int \<Rightarrow> py_error + int" where
  "new_rowid ids sq =
     (if sq = MAX_ROWID \<or> (ids \<noteq> [] \<and> MAX_ROWID \<le> max_rowid ids)
      then Inl (OperationalError ''database or disk is full'')
      else Inr (max (if ids = [] then 1 else max_rowid ids + 1) (sq + 1)))"

subsection \<open>\<open>add_bill\<close>\<close>

text \<open>
  \<open>INSERT INTO bills (customer, date, total)\<close>, followed by \<open>cur.lastrowid\<close>. The
  result is the identifier of the new row and the state of the open transaction.
\<close>

definition insert_bill :: "string \<Rightarrow> string \<Rightarrow> money \<Rightarrow> db \<Rightarrow> py_error + (int \<times> db)" where
  "insert_bill customer date total_amt d =
     (case bills_t d of
        None \<Rightarrow> Inl (OperationalError ''no such table: bills'')
      | Some t \<Rightarrow>
          (case new_rowid (map b_id (t_rows t)) (t_seq t) of
             Inl e \<Rightarrow> Inl e
           | Inr k \<Rightarrow>
               Inr (k, d\<lparr>bills_t := Some
                      \<lparr>t_rows = t_rows t @
                         [\<lparr>b_id = k, b_customer = customer, b_date = date, b_total = total_amt\<rparr>],
                       t_seq = k\<rparr>\<rparr>)))"

text \<open>
  \<open>INSERT INTO bill_items (bill_id, product, price, quantity)\<close>. The statement is
  compiled first (the table must exist), then the parameters are bound: a Python
  integer outside the signed 64-bit range raises \<open>OverflowError\<close>.
\<close>

definition insert_item :: "int \<Rightarrow> cart_line \<Rightarrow> db \<Rightarrow> py_error + db" where
  "insert_item bill_id item d =
     (case item of (product, price, quantity) \<Rightarrow>
        (case items_t d of
           None \<Rightarrow> Inl (OperationalError ''no such table: bill_items'')
         | Some t \<Rightarrow>
             if quantity < - MAX_ROWID - 1 \<or> MAX_ROWID < quantity
                \<or> bill_id < - MAX_ROWID - 1 \<or> MAX_ROWID < bill_id
             then Inl (OverflowError ''Python int too large to convert to SQLite INTEGER'')
             else
               (case new_rowid (map i_id (t_rows t)) (t_seq t) of
                  Inl e \<Rightarrow> Inl e
                | Inr k \<Rightarrow>
                    Inr (d\<lparr>items_t := Some
                           \<lparr>t_rows = t_rows t @
                              [\<lparr>i_id = k, i_bill_id = bill_id, i_product = product,
                                i_price = price, i_quantity = quantity\<rparr>],
                            t_seq = k\<rparr>\<rparr>))))"

text \<open>The loop \<open>for product, price, quantity in items\<close>; the first exception ends it.\<close>

fun insert_items :: "int \<Rightarrow> cart_line list \<Rightarrow> db \<Rightarrow> py_error + db" where
  "insert_items bill_id [] d = Inr d"
| "insert_items bill_id (item # items) d =
     (case insert_item bill_id item d of
        Inl e \<Rightarrow> Inl e
      | Inr d' \<Rightarrow> insert_items bill_id items d')"

text \<open>The statements of \<open>add_bill\<close> up to, and not including, \<open>conn.commit()\<close>.\<close>

definition add_bill_txn :: "string \<Rightarrow> string \<Rightarrow> money \<Rightarrow> cart_line list \<Rightarrow> db \<Rightarrow> py_error + (int \<times> db)" where
  "add_bill_txn customer date total_amt items d =
     (case insert_bill customer date total_amt d of
        Inl e \<Rightarrow> Inl e
      | Inr (bill_id, d1) \<Rightarrow>
          (case insert_items bill_id items d1 of
             Inl e \<Rightarrow> Inl e
           | Inr d2 \<Rightarrow> Inr (bill_id, d2)))"

text \<open>
  \<open>add_bill\<close>: the first insert opens a transaction on the connection. If every
  statement succeeds, \<open>conn.commit()\<close> makes the transaction the new state of the file.
  If a statement raises, the exception leaves the function before the commit; the
  connection is dropped with its transaction open, which SQLite rolls back, so the
  file keeps its previous state.
\<close>

definition add_bill :: "string \<Rightarrow> string \<Rightarrow> money \<Rightarrow> cart_line list \<Rightarrow> db \<Rightarrow> (py_error + int) \<times> db" where
  "add_bill customer date total_amt items d =
     (case add_bill_txn customer date total_amt items d of
        Inl e \<Rightarrow> (Inl e, d)
      | Inr (bill_id, d') \<Rightarrow> (Inr bill_id, d'))"

subsection \<open>\<open>fetch_bills\<close> and \<open>fetch_bill_items\<close>\<close>

definition bill_tuple_of :: "bill_row \<Rightarrow> bill_tuple" where
  "bill_tuple_of r = (b_id r, b_customer r, b_date r, b_total r)"

definition item_tuple_of :: "item_row \<Rightarrow> cart_line" where
  "item_tuple_of r = (i_product r, i_price r, i_quantity r)"

text \<open>\<open>SELECT id, customer, date, total FROM bills ORDER BY id DESC\<close>.\<close>

definition fetch_bills :: "db \<Rightarrow> (py_error + bill_tuple list) \<times> db" where
  "fetch_bills d =
     (case bills_t d of
        None \<Rightarrow> (Inl (OperationalError ''no such table: bills''), d)
      | Some t \<Rightarrow> (Inr (map bill_tuple_of (rev (sort_key b_id (t_rows t)))), d))"

text \<open>\<open>SELECT product, price, quantity FROM bill_items WHERE bill_id = ?\<close>.\<close>

definition fetch_bill_items :: "int \<Rightarrow> db \<Rightarrow> (py_error + cart_line list) \<times> db" where
  "fetch_bill_items bill_id d =
     (case items_t d of
        None \<Rightarrow> (Inl (OperationalError ''no such table: bill_items''), d)
      | Some t \<Rightarrow>
          (Inr (map item_tuple_of (filter (\<lambda>r. i_bill_id r = bill_id) (t_rows t))), d))"

subsection \<open>Sequences of calls of the persistence API\<close>

datatype api_call =
    InitDb
  | AddBill string string money "cart_line list"
  | FetchBills
  | FetchBillItems int

fun exec_call :: "api_call \<Rightarrow> db \<Rightarrow> db" where
  "exec_call InitDb d = snd (init_db d)"
| "exec_call (AddBill customer date total_amt items) d = snd (add_bill customer date total_amt items d)"
| "exec_call FetchBills d = snd (fetch_bills d)"
| "exec_call (FetchBillItems bill_id) d = snd (fetch_bill_items bill_id d)"

definition run_calls :: "api_call list \<Rightarrow> db \<Rightarrow> db" where
  "run_calls cs d = fold exec_call cs d"

text \<open>
  The primary keys of a stored table are unique; this is the invariant the engine
  maintains for an \<open>INTEGER PRIMARY KEY\<close> column.
\<close>

definition keys_unique :: "db \<Rightarrow> bool" where
  "keys_unique d = (distinct (map b_id (bill_rows d)) \<and> distinct (map i_id (item_rows d)))"

definition initialized :: "db \<Rightarrow> bool" where
  "initialized d = (bills_t d \<noteq> None \<and> items_t d \<noteq> None)"

section \<open>Invoice rendering (invoice.py)\<close>



text \<open>
  The height of an A4 page in points: 297 mm at 72 points per inch (25.4 mm), the second
  component of the constant \<open>A4\<close> of the PDF library.
\<close>

definition A4_height :: rat where
  "A4_height = 106920 / 127"




section \<open>The application (gui.py)\<close>

text \<open>
  The state of \<open>BillApp\<close> that the handlers read and write: the cart, the selected
  bill, and the contents of the three input widgets. The list box and the tree view
  only display what the cart and the store hold and are not modelled; \<open>load_bills\<close>,
  which refreshes the tree view, changes nothing of this state.
\<close>

record app =
  cart :: "cart_line list"
  selected_bill :: "bill_tuple option"
  customer_entry :: string
  qty_entry :: string
  product_var :: string

text \<open>
  What the user sees of a handler: a message box (title and text), the document viewer
  started on a path, nothing, or an exception that no handler of the application
  catches (Tk reports it on the error stream; no dialog is shown).
\<close>

datatype ui =
    ShowError string string
  | ShowInfo string string
  | OpenViewer string
  | NoDialog
  | Uncaught py_error

text \<open>\<open>str(e)\<close> of an exception; the text of a \<open>ValueError\<close> is not modelled.\<close>

fun error_text :: "py_error \<Rightarrow> string" where
  "error_text (OperationalError m) = m"
| "error_text (OverflowError m) = m"
| "error_text ValueError = []"

text \<open>The entries of the read-only product drop-down.\<close>

definition catalog :: "string list" where
  "catalog =
     [''Laptop - 800.00'',
      ''Smartphone - 500.00'',
      ''Tablet - 300.00'',
      ''Headphones - 100.00'',
      ''Smartwatch - 150.00'',
      ''Gaming Console - 600.00'',
      ''4K Monitor - 400.00'',
      ''Mechanical Keyboard - 120.00'',
      ''Wireless Mouse - 40.00'',
      ''External Hard Drive - 120.00'']"

text \<open>
  \<open>name, price_str = product_text.split(" - ")\<close> and \<open>price = float(price_str)\<close>: the
  unpacking raises \<open>ValueError\<close> unless there are exactly two pieces.
\<close>

definition parse_product :: "string \<Rightarrow> py_error + (string \<times> money)" where
  "parse_product product_text =
     (case py_split product_text '' - '' of
        [name, price_str] \<Rightarrow>
          (case py_float price_str of
             Inl e \<Rightarrow> Inl e
           | Inr price \<Rightarrow> Inr (name, price))
      | _ \<Rightarrow> Inl ValueError)"

subsection \<open>\<open>add_to_cart\<close>\<close>

text \<open>
  The guard \<open>not qty_text.isdigit() or int(qty_text) <= 0\<close> and the assignment
  \<open>qty = int(qty_text)\<close> stand outside the \<open>try\<close> block; only the parsing of the
  product text is inside it.
\<close>

definition add_to_cart :: "app \<Rightarrow> app \<times> ui" where
  "add_to_cart a =
     (let product_text = product_var a; qty_text = qty_entry a
      in if product_text = [] then (a, ShowError ''Error'' ''Please select a product.'')
         else if \<not> str_isdigit qty_text
         then (a, ShowError ''Error'' ''Please enter a valid quantity (1 or more).'')
         else
           (case py_int qty_text of
              Inl e \<Rightarrow> (a, Uncaught e)
            | Inr qty \<Rightarrow>
                if qty \<le> 0
                then (a, ShowError ''Error'' ''Please enter a valid quantity (1 or more).'')
                else
                  (case parse_product product_text of
                     Inl e \<Rightarrow>
                       (a, ShowError ''Error''
                          ''Could not parse product information. Please select a valid product.'')
                   | Inr (name, price) \<Rightarrow>
                       (a\<lparr>cart := cart a @ [(name, price, qty)], qty_entry := ''1''\<rparr>,
                        NoDialog))))"

subsection \<open>\<open>save_bill\<close>\<close>

text \<open>
  \<open>now\<close> is the text of \<open>datetime.now().strftime("%Y-%m-%d %H:%M:%S")\<close> at the time
  of the call.
\<close>

definition cart_total :: "cart_line list \<Rightarrow> money" where
  "cart_total lines = foldl (\<lambda>s line. case line of (name, price, qty) \<Rightarrow> s + price * of_int qty) 0 lines"

definition save_bill :: "string \<Rightarrow> app \<times> db \<Rightarrow> (app \<times> db) \<times> ui" where
  "save_bill now ad =
     (case ad of (a, d) \<Rightarrow>
        (let customer = strip (customer_entry a)
         in if customer = [] then ((a, d), ShowError ''Error'' ''Please enter a customer name.'')
            else if cart a = []
            then ((a, d), ShowError ''Error'' ''Your cart is empty. Add some products first.'')
            else
              (let date_str = now; total_amt = cart_total (cart a)
               in case add_bill customer date_str total_amt (cart a) d of
                    (Inl e, d') \<Rightarrow>
                      ((a, d'), ShowError ''Database Error'' (''Failed to save bill: '' @ error_text e))
                  | (Inr bill_id, d') \<Rightarrow>
                      ((a\<lparr>selected_bill := Some (bill_id, customer, date_str, total_amt),
                          cart := [], customer_entry := []\<rparr>, d'),
                       ShowInfo ''Bill Saved''
                         (''Bill #'' @ str_int bill_id @ '' saved successfully. Total: $''
                            @ fmt2 total_amt)))))"

subsection \<open>\<open>export_invoice\<close> and \<open>open_invoice_external\<close>\<close>




section \<open>Notions used to state the properties\<close>

text \<open>The row that the item insert of \<open>add_bill\<close> writes for a cart line.\<close>

definition new_item_row :: "int \<Rightarrow> int \<Rightarrow> cart_line \<Rightarrow> item_row" where
  "new_item_row bill_id k line =
     \<lparr>i_id = k, i_bill_id = bill_id, i_product = fst line, i_price = fst (snd line),
      i_quantity = snd (snd line)\<rparr>"

text \<open>A store that holds one bill with one item, used in the examples below.\<close>

definition sample_db :: db where
  "sample_db =
     \<lparr>bills_t = Some \<lparr>t_rows = [\<lparr>b_id = 1, b_customer = ''Ann'', b_date = ''2024-05-01 09:30:00'',
                                  b_total = 1600\<rparr>], t_seq = 1\<rparr>,
      items_t = Some \<lparr>t_rows = [\<lparr>i_id = 1, i_bill_id = 1, i_product = ''Laptop'', i_price = 800,
                                  i_quantity = 2\<rparr>], t_seq = 1\<rparr>\<rparr>"

text \<open>A store as the API produces it: created, then two bills saved.\<close>

definition history_db :: db where
  "history_db =
     run_calls
       [InitDb,
        AddBill ''Ann'' ''2024-05-01 09:30:00'' 1600 [(''Laptop'', 800, 2)],
        AddBill ''Bob'' ''2024-05-02 10:00:00'' 340 [(''Wireless Mouse'', 40, 1), (''Tablet'', 300, 1)]]
       new_file"

text \<open>
  An application state with two lines in the cart, and the store \<open>sample_db\<close> after
  that cart has been saved.
\<close>

definition sample_app :: app where
  "sample_app =
     \<lparr>cart = [(''Laptop'', 800, 1), (''Tablet'', 300, 2)], selected_bill = None,
      customer_entry = '' Bob '', qty_entry = ''1'', product_var = ''Laptop - 800.00''\<rparr>"






definition next_y :: "rat \<Rightarrow> rat \<Rightarrow> rat" where
  "next_y height y = (if y - 20 < 100 then height - 50 else y - 20)"

primrec row_positions :: "rat \<Rightarrow> rat \<Rightarrow> nat \<Rightarrow> rat list" where
  "row_positions height y 0 = []"
| "row_positions height y (Suc n) = y # row_positions height (next_y height y) n"




section \<open>Properties of the persistence layer\<close>

subsection \<open>Row identifiers are fresh\<close>

lemma max_rowid_ge: "x \<in> set ids \<Longrightarrow> x \<le> max_rowid ids"
  by (induction ids rule: max_rowid.induct) auto

lemma new_rowid_fresh: "new_rowid ids sq = Inr k \<Longrightarrow> x \<in> set ids \<Longrightarrow> x < k"
  using max_rowid_ge [of x ids]
  by (auto simp: new_rowid_def split: if_splits)

subsection \<open>What the inserts of a transaction write\<close>

lemma insert_bill_result:
  assumes "insert_bill customer date total_amt d = Inr (k, d')"
  shows "items_t d' = items_t d"
    and "bill_rows d' = bill_rows d @
           [\<lparr>b_id = k, b_customer = customer, b_date = date, b_total = total_amt\<rparr>]"
    and "bills_t d \<noteq> None" and "bills_t d' \<noteq> None"
    and "x \<in> set (bill_rows d) \<Longrightarrow> b_id x < k"
  using assms new_rowid_fresh [of "map b_id (bill_rows d)" _ k "b_id x"]
  by (auto simp: insert_bill_def bill_rows_def split: option.splits sum.splits)

lemma insert_item_result:
  assumes "insert_item b line d = Inr d'"
  shows "bills_t d' = bills_t d \<and> items_t d \<noteq> None \<and> items_t d' \<noteq> None \<and>
         (\<exists>k. item_rows d' = item_rows d @ [new_item_row b k line] \<and>
              (\<forall>x \<in> set (item_rows d). i_id x < k))"
proof -
  obtain product price quantity where line: "line = (product, price, quantity)"
    by (cases line) auto
  from assms obtain t k where t: "items_t d = Some t"
    and k: "new_rowid (map i_id (t_rows t)) (t_seq t) = Inr k"
    and d': "d' = d\<lparr>items_t := Some \<lparr>t_rows = t_rows t @ [new_item_row b k line], t_seq = k\<rparr>\<rparr>"
    by (auto simp: insert_item_def line new_item_row_def split: option.splits if_splits sum.splits)
  have "\<forall>x \<in> set (item_rows d). i_id x < k"
    using new_rowid_fresh [OF k] t by (auto simp: item_rows_def)
  then show ?thesis
    using t d' by (auto simp: item_rows_def)
qed

lemma insert_items_result:
  "insert_items b items d = Inr d' \<Longrightarrow>
     bills_t d' = bills_t d \<and>
     (\<exists>ks. length ks = length items \<and>
           item_rows d' = item_rows d @ map2 (new_item_row b) ks items)"
proof (induction items arbitrary: d)
  case Nil
  then show ?case by simp
next
  case (Cons line items)
  from Cons.prems obtain d1 where d1: "insert_item b line d = Inr d1"
    and rest: "insert_items b items d1 = Inr d'"
    by (auto split: sum.splits)
  from insert_item_result [OF d1] obtain k where
    b1: "bills_t d1 = bills_t d" and r1: "item_rows d1 = item_rows d @ [new_item_row b k line]"
    by auto
  from Cons.IH [OF rest] obtain ks where
    b2: "bills_t d' = bills_t d1" and len: "length ks = length items"
    and r2: "item_rows d' = item_rows d1 @ map2 (new_item_row b) ks items"
    by auto
  have "length (k # ks) = length (line # items)" using len by simp
  moreover have "item_rows d' = item_rows d @ map2 (new_item_row b) (k # ks) (line # items)"
    using r1 r2 by simp
  ultimately show ?case using b1 b2 by metis
qed

lemma insert_item_distinct:
  "insert_item b line d = Inr d' \<Longrightarrow> distinct (map i_id (item_rows d)) \<Longrightarrow>
     distinct (map i_id (item_rows d'))"
  using insert_item_result [of b line d d']
  by (auto simp: new_item_row_def)

lemma insert_items_distinct:
  "insert_items b items d = Inr d' \<Longrightarrow> distinct (map i_id (item_rows d)) \<Longrightarrow>
     distinct (map i_id (item_rows d'))"
proof (induction items arbitrary: d)
  case Nil
  then show ?case by simp
next
  case (Cons line items)
  then show ?case
    by (auto split: sum.splits dest: insert_item_distinct)
qed

lemma add_bill_txn_result:
  assumes "add_bill_txn customer date total_amt items d = Inr (k, d')"
  shows "bill_rows d' = bill_rows d @
           [\<lparr>b_id = k, b_customer = customer, b_date = date, b_total = total_amt\<rparr>]"
    and "\<exists>ks. length ks = length items \<and>
           item_rows d' = item_rows d @ map2 (new_item_row k) ks items"
    and "bills_t d \<noteq> None" and "bills_t d' \<noteq> None"
    and "x \<in> set (bill_rows d) \<Longrightarrow> b_id x < k"
proof -
  from assms obtain d1 where d1: "insert_bill customer date total_amt d = Inr (k, d1)"
    and d2: "insert_items k items d1 = Inr d'"
    by (auto simp: add_bill_txn_def split: sum.splits)
  note ib = insert_bill_result [OF d1]
  note ii = insert_items_result [OF d2]
  show "bill_rows d' = bill_rows d @
           [\<lparr>b_id = k, b_customer = customer, b_date = date, b_total = total_amt\<rparr>]"
    using ib(2) ii by (simp add: bill_rows_def)
  show "\<exists>ks. length ks = length items \<and>
           item_rows d' = item_rows d @ map2 (new_item_row k) ks items"
    using ib(1) ii by (simp add: item_rows_def)
  show "bills_t d \<noteq> None" by (rule ib(3))
  show "bills_t d' \<noteq> None" using ib(4) ii by simp
  show "x \<in> set (bill_rows d) \<Longrightarrow> b_id x < k" by (rule ib(5))
qed

text \<open>\<open>add_bill\<close> either raises and leaves the store as it was, or commits its transaction.\<close>

lemma add_bill_cases:
  "(\<exists>e. add_bill customer date total_amt items d = (Inl e, d)) \<or>
   (\<exists>k d'. add_bill customer date total_amt items d = (Inr k, d') \<and>
            add_bill_txn customer date total_amt items d = Inr (k, d'))"
  by (auto simp: add_bill_def split: sum.splits)

lemmas db_eval =
  add_bill_def add_bill_txn_def insert_bill_def insert_item_def new_rowid_def MAX_ROWID_def
  bill_rows_def item_rows_def new_item_row_def

subsection \<open>Initialisation\<close>

text \<open>
  Claim C7. \<open>init_db\<close> never raises; running it twice gives the same store as running
  it once; and on a store that already has both tables it changes nothing.
\<close>

theorem init_db_idempotent:
  "fst (init_db d) = None \<and>
   snd (init_db (snd (init_db d))) = snd (init_db d) \<and>
   (initialized d \<longrightarrow> snd (init_db d) = d)"
  by (auto simp: init_db_def initialized_def create_if_absent_def split: option.splits)

theorem init_db_idempotent_witness:
  "initialized sample_db \<and> init_db sample_db = (None, sample_db) \<and>
   snd (init_db (snd (init_db new_file))) = snd (init_db new_file)"
  using init_db_idempotent [of sample_db] init_db_idempotent [of new_file]
  by (simp add: initialized_def sample_db_def prod_eq_iff)

subsection \<open>Atomicity of \<open>add_bill\<close>\<close>

text \<open>
  Claim C2. For every input, a call of \<open>add_bill\<close> that raises leaves the store exactly
  as it was: no bill row and no item row of that call remains, also when the bill row
  had already been inserted and a later item insert failed. A call that returns the
  identifier \<open>k\<close> has appended the bill row \<open>k\<close> and, in order, one item row for each
  item, each with \<open>bill_id = k\<close>.
\<close>

theorem add_bill_atomic:
  "(\<forall>e d'. add_bill customer date total_amt items d = (Inl e, d') \<longrightarrow> d' = d) \<and>
   (\<forall>k d'. add_bill customer date total_amt items d = (Inr k, d') \<longrightarrow>
      bill_rows d' = bill_rows d @
        [\<lparr>b_id = k, b_customer = customer, b_date = date, b_total = total_amt\<rparr>] \<and>
      (\<exists>ks. length ks = length items \<and>
            item_rows d' = item_rows d @ map2 (new_item_row k) ks items))"
proof (intro conjI allI impI)
  fix e d' assume "add_bill customer date total_amt items d = (Inl e, d')"
  then show "d' = d"
    using add_bill_cases [of customer date total_amt items d] by auto
next
  fix k d' assume ok: "add_bill customer date total_amt items d = (Inr k, d')"
  then have txn: "add_bill_txn customer date total_amt items d = Inr (k, d')"
    using add_bill_cases [of customer date total_amt items d] by auto
  show "bill_rows d' = bill_rows d @
        [\<lparr>b_id = k, b_customer = customer, b_date = date, b_total = total_amt\<rparr>]"
    by (rule add_bill_txn_result(1) [OF txn])
  show "\<exists>ks. length ks = length items \<and>
            item_rows d' = item_rows d @ map2 (new_item_row k) ks items"
    by (rule add_bill_txn_result(2) [OF txn])
qed

text \<open>
  An example of each case. In the first call the bill row and the first item are
  inserted in the transaction, the second item (quantity \<open>2 ^ 63\<close>) raises, and the
  store is unchanged. The second call succeeds.
\<close>

theorem add_bill_atomic_witness:
  "insert_bill ''Bob'' ''2024-05-02 10:00:00'' 800 sample_db \<noteq>
     Inl (OperationalError ''no such table: bills'') \<and>
   add_bill ''Bob'' ''2024-05-02 10:00:00'' 800 [(''Laptop'', 800, 1), (''Tablet'', 300, 2 ^ 63)] sample_db =
     (Inl (OverflowError ''Python int too large to convert to SQLite INTEGER''), sample_db) \<and>
   fst (add_bill ''Bob'' ''2024-05-02 10:00:00'' 1400 [(''Laptop'', 800, 1), (''Tablet'', 300, 2)] sample_db) = Inr 2 \<and>
   bill_rows (snd (add_bill ''Bob'' ''2024-05-02 10:00:00'' 1400 [(''Laptop'', 800, 1), (''Tablet'', 300, 2)] sample_db)) =
     bill_rows sample_db @ [\<lparr>b_id = 2, b_customer = ''Bob'', b_date = ''2024-05-02 10:00:00'', b_total = 1400\<rparr>] \<and>
   item_rows (snd (add_bill ''Bob'' ''2024-05-02 10:00:00'' 1400 [(''Laptop'', 800, 1), (''Tablet'', 300, 2)] sample_db)) =
     item_rows sample_db @ [new_item_row 2 2 (''Laptop'', 800, 1), new_item_row 2 3 (''Tablet'', 300, 2)]"
  using add_bill_atomic [of "''Bob''" "''2024-05-02 10:00:00''" 800
          "[(''Laptop'', 800, 1), (''Tablet'', 300, 2 ^ 63)]" sample_db]
  by (simp add: db_eval sample_db_def)

subsection \<open>The store only grows\<close>

lemma exec_call_prefix:
  "prefix (bill_rows d) (bill_rows (exec_call c d)) \<and>
   prefix (item_rows d) (item_rows (exec_call c d))"
proof (cases c)
  case InitDb
  then show ?thesis
    by (auto simp: init_db_def bill_rows_def item_rows_def create_if_absent_def empty_table_def
             split: option.splits)
next
  case (AddBill customer date total_amt items)
  from add_bill_cases [of customer date total_amt items d] show ?thesis
  proof (elim disjE exE conjE)
    fix e assume "add_bill customer date total_amt items d = (Inl e, d)"
    then show ?thesis using AddBill by simp
  next
    fix k d' assume r: "add_bill customer date total_amt items d = (Inr k, d')"
      and txn: "add_bill_txn customer date total_amt items d = Inr (k, d')"
    from add_bill_txn_result(1,2) [OF txn] show ?thesis
      using AddBill r by auto
  qed
next
  case FetchBills
  then show ?thesis by (simp add: fetch_bills_def split: option.splits)
next
  case (FetchBillItems b)
  then show ?thesis by (simp add: fetch_bill_items_def split: option.splits)
qed

lemma run_calls_prefix:
  "prefix (bill_rows d) (bill_rows (run_calls cs d)) \<and>
   prefix (item_rows d) (item_rows (run_calls cs d))"
proof (induction cs arbitrary: d)
  case Nil
  then show ?case by (simp add: run_calls_def)
next
  case (Cons c cs)
  have step: "run_calls (c # cs) d = run_calls cs (exec_call c d)"
    by (simp add: run_calls_def)
  show ?case
    unfolding step
    using exec_call_prefix [of d c] Cons.IH [of "exec_call c d"]
    by (meson prefix_order.trans)
qed

text \<open>
  Claim C9. For every sequence of calls of \<open>init_db\<close>, \<open>add_bill\<close>, \<open>fetch_bills\<close> and
  \<open>fetch_bill_items\<close>, whatever their arguments and whether they return or raise, the
  bill rows and the item rows of the store before the calls are an initial segment of
  the rows after them: every row is still there, with the same fields and at the same
  place.
\<close>

theorem store_append_only:
  "prefix (bill_rows d) (bill_rows (run_calls cs d)) \<and>
   prefix (item_rows d) (item_rows (run_calls cs d)) \<and>
   set (bill_rows d) \<subseteq> set (bill_rows (run_calls cs d)) \<and>
   set (item_rows d) \<subseteq> set (item_rows (run_calls cs d))"
  using run_calls_prefix [of d cs] by (simp add: set_mono_prefix)

subsection \<open>Primary keys stay unique\<close>

lemma add_bill_txn_distinct:
  assumes "add_bill_txn customer date total_amt items d = Inr (k, d')" and "keys_unique d"
  shows "keys_unique d'"
proof -
  from assms(1) obtain d1 where d1: "insert_bill customer date total_amt d = Inr (k, d1)"
    and d2: "insert_items k items d1 = Inr d'"
    by (auto simp: add_bill_txn_def split: sum.splits)
  have "distinct (map i_id (item_rows d1))"
    using insert_bill_result(1) [OF d1] assms(2) by (simp add: keys_unique_def item_rows_def)
  then have items: "distinct (map i_id (item_rows d'))"
    by (rule insert_items_distinct [OF d2])
  have "b_id x \<noteq> k" if "x \<in> set (bill_rows d)" for x
    using add_bill_txn_result(5) [OF assms(1) that] by simp
  then have "distinct (map b_id (bill_rows d'))"
    using add_bill_txn_result(1) [OF assms(1)] assms(2)
    by (auto simp: keys_unique_def)
  with items show ?thesis by (simp add: keys_unique_def)
qed

lemma exec_call_keys_unique: "keys_unique d \<Longrightarrow> keys_unique (exec_call c d)"
proof (cases c)
  case InitDb
  assume "keys_unique d"
  then show ?thesis using InitDb
    by (auto simp: keys_unique_def init_db_def bill_rows_def item_rows_def create_if_absent_def
          empty_table_def split: option.splits)
next
  case (AddBill customer date total_amt items)
  assume ku: "keys_unique d"
  from add_bill_cases [of customer date total_amt items d] show ?thesis
    using AddBill ku by (auto dest: add_bill_txn_distinct)
next
  case FetchBills
  assume "keys_unique d"
  then show ?thesis using FetchBills by (simp add: fetch_bills_def split: option.splits)
next
  case (FetchBillItems b)
  assume "keys_unique d"
  then show ?thesis using FetchBillItems by (simp add: fetch_bill_items_def split: option.splits)
qed

text \<open>Every store that the API builds from a new file has unique keys.\<close>

lemma run_calls_keys_unique: "keys_unique d \<Longrightarrow> keys_unique (run_calls cs d)"
  by (induction cs arbitrary: d) (simp_all add: run_calls_def exec_call_keys_unique)

lemma keys_unique_new_file: "keys_unique (run_calls cs new_file)"
  by (rule run_calls_keys_unique) (simp add: keys_unique_def new_file_def bill_rows_def item_rows_def)

subsection \<open>The order of \<open>fetch_bills\<close>\<close>

lemma distinct_sort_key_map:
  "distinct (map f (sort_key f xs)) = distinct (map f xs)"
proof -
  have "mset (map f (sort_key f xs)) = mset (map f xs)" by simp
  then show ?thesis by (rule mset_eq_imp_distinct_iff)
qed

lemma sort_key_desc:
  assumes "distinct (map f xs)"
  shows "sorted_wrt (\<lambda>x y. f y < f x) (rev (sort_key f xs))"
proof -
  have "sorted (map f (sort_key f xs))" by simp
  moreover have "distinct (map f (sort_key f xs))"
    using assms by (simp add: distinct_sort_key_map)
  ultimately have "sorted_wrt (<) (map f (sort_key f xs))"
    by (simp add: strict_sorted_iff)
  then show ?thesis
    by (simp add: sorted_wrt_rev sorted_wrt_map)
qed

text \<open>
  Claim C3. On every store that has its tables and whose bill identifiers are unique
  (as a primary key is), \<open>fetch_bills\<close> returns, without changing the store, all the
  bill rows, each once, in strictly descending order of identifier.
\<close>

theorem fetch_bills_descending:
  assumes "initialized d" and "keys_unique d"
  shows "\<exists>rs. fetch_bills d = (Inr rs, d) \<and>
              mset rs = mset (map bill_tuple_of (bill_rows d)) \<and>
              sorted_wrt (\<lambda>x y. fst y < fst x) rs"
proof -
  from assms(1) obtain t where t: "bills_t d = Some t"
    by (auto simp: initialized_def)
  let ?rs = "map bill_tuple_of (rev (sort_key b_id (t_rows t)))"
  have "fetch_bills d = (Inr ?rs, d)"
    using t by (simp add: fetch_bills_def)
  moreover have "mset ?rs = mset (map bill_tuple_of (bill_rows d))"
    using t by (simp add: bill_rows_def)
  moreover have "sorted_wrt (\<lambda>x y. fst y < fst x) ?rs"
    using sort_key_desc [of b_id "t_rows t"] assms(2) t
    by (simp add: sorted_wrt_map bill_tuple_of_def keys_unique_def bill_rows_def)
  ultimately show ?thesis by blast
qed

lemma history_db_eval:
  "history_db =
     \<lparr>bills_t = Some \<lparr>t_rows =
         [\<lparr>b_id = 1, b_customer = ''Ann'', b_date = ''2024-05-01 09:30:00'', b_total = 1600\<rparr>,
          \<lparr>b_id = 2, b_customer = ''Bob'', b_date = ''2024-05-02 10:00:00'', b_total = 340\<rparr>],
         t_seq = 2\<rparr>,
      items_t = Some \<lparr>t_rows =
         [\<lparr>i_id = 1, i_bill_id = 1, i_product = ''Laptop'', i_price = 800, i_quantity = 2\<rparr>,
          \<lparr>i_id = 2, i_bill_id = 2, i_product = ''Wireless Mouse'', i_price = 40, i_quantity = 1\<rparr>,
          \<lparr>i_id = 3, i_bill_id = 2, i_product = ''Tablet'', i_price = 300, i_quantity = 1\<rparr>],
         t_seq = 3\<rparr>\<rparr>"
  by (simp add: history_db_def run_calls_def init_db_def create_if_absent_def empty_table_def
        new_file_def add_bill_def add_bill_txn_def insert_bill_def insert_item_def new_rowid_def
        MAX_ROWID_def)

theorem fetch_bills_descending_witness:
  "initialized history_db \<and> keys_unique history_db \<and>
   fetch_bills history_db =
     (Inr [(2, ''Bob'', ''2024-05-02 10:00:00'', 340), (1, ''Ann'', ''2024-05-01 09:30:00'', 1600)],
      history_db)"
proof -
  have i: "initialized history_db"
    by (simp add: history_db_eval initialized_def)
  have k: "keys_unique history_db"
    by (simp add: history_db_eval keys_unique_def bill_rows_def item_rows_def)
  from fetch_bills_descending [OF i k] i k show ?thesis
    by (simp add: history_db_eval fetch_bills_def bill_tuple_of_def)
qed

section \<open>Properties of the application\<close>

subsection \<open>Evaluation of the text conversions on the examples\<close>

lemma strip_eval:
  "strip '' Bob '' = ''Bob''" "strip ''   '' = []" "strip ''Bob'' = ''Bob''"
  by (simp_all add: strip_def py_isspace_def)



subsection \<open>\<open>save_bill\<close>\<close>



text \<open>
  Claim C5. When the customer name is empty after stripping white space, or the cart is
  empty, \<open>save_bill\<close> shows an error message and returns with the application state
  (the cart included) and the store exactly as they were.
\<close>

theorem save_bill_rejects:
  assumes "strip (customer_entry a) = [] \<or> cart a = []"
  shows "save_bill now (a, d) =
           ((a, d), ShowError ''Error''
              (if strip (customer_entry a) = [] then ''Please enter a customer name.''
               else ''Your cart is empty. Add some products first.''))"
  using assms by (auto simp: save_bill_def Let_def)

theorem save_bill_rejects_witness:
  "strip (customer_entry (sample_app\<lparr>customer_entry := ''   ''\<rparr>)) = [] \<and>
   save_bill ''2024-05-02 10:00:00'' (sample_app\<lparr>customer_entry := ''   ''\<rparr>, sample_db) =
     ((sample_app\<lparr>customer_entry := ''   ''\<rparr>, sample_db),
      ShowError ''Error'' ''Please enter a customer name.'') \<and>
   cart (sample_app\<lparr>cart := []\<rparr>) = [] \<and>
   save_bill ''2024-05-02 10:00:00'' (sample_app\<lparr>cart := []\<rparr>, sample_db) =
     ((sample_app\<lparr>cart := []\<rparr>, sample_db),
      ShowError ''Error'' ''Your cart is empty. Add some products first.'')"
  using save_bill_rejects [of "sample_app\<lparr>customer_entry := ''   ''\<rparr>" "''2024-05-02 10:00:00''" sample_db]
        save_bill_rejects [of "sample_app\<lparr>cart := []\<rparr>" "''2024-05-02 10:00:00''" sample_db]
  by (simp add: sample_app_def strip_eval)




subsection \<open>\<open>add_to_cart\<close>\<close>

lemma isdigit_not_space: "py_isdigit c \<Longrightarrow> \<not> py_isspace c"
  by (auto simp: py_isdigit_def py_isdecimal_def py_isspace_def)

lemma isdigit_not_sign: "py_isdigit c \<Longrightarrow> c \<noteq> CHR ''-'' \<and> c \<noteq> CHR ''+''"
  by (auto simp: py_isdigit_def py_isdecimal_def)

lemma isdecimal_isdigit: "py_isdecimal c \<Longrightarrow> py_isdigit c"
  by (simp add: py_isdigit_def)

lemma dropWhile_hd: "xs \<noteq> [] \<Longrightarrow> \<not> P (hd xs) \<Longrightarrow> dropWhile P xs = xs"
  by (cases xs) auto

lemma strip_digits:
  assumes "list_all py_isdigit s"
  shows "strip s = s"
proof (cases "s = []")
  case True
  then show ?thesis by (simp add: strip_def)
next
  case False
  have h: "\<not> py_isspace (hd s)"
    using assms False by (cases s) (auto dest: isdigit_not_space)
  have "py_isdigit (last s)"
    using assms False by (simp add: list_all_iff)
  then have l: "\<not> py_isspace (hd (rev s))"
    using False by (simp add: hd_rev isdigit_not_space)
  show ?thesis
    using False h l by (simp add: strip_def dropWhile_hd)
qed

text \<open>On a string that passed \<open>isdigit\<close>, \<open>int\<close> succeeds exactly when every character is decimal.\<close>

lemma py_int_isdigit:
  assumes "str_isdigit s"
  shows "py_int s = (if list_all py_isdecimal s then Inr (int (digits_val s)) else Inl ValueError)"
proof -
  from assms obtain c r where s: "s = c # r" and all: "list_all py_isdigit s"
    by (cases s) (auto simp: str_isdigit_def)
  then have "py_isdigit c" by simp
  then have "c \<noteq> CHR ''-''" "c \<noteq> CHR ''+''" by (auto dest: isdigit_not_sign)
  then show ?thesis
    using s strip_digits [OF all] by (simp add: py_int_def Let_def)
qed

lemma decimal_isdigit: "list_all py_isdecimal s \<Longrightarrow> s \<noteq> [] \<Longrightarrow> str_isdigit s"
  by (auto simp: str_isdigit_def list_all_iff dest: isdecimal_isdigit)

text \<open>
  A quantity text that fails \<open>isdigit\<close>, or that consists of decimal digits and has
  the value zero, is rejected with an error message and the state is unchanged.
\<close>

lemma add_to_cart_rejects:
  assumes "\<not> str_isdigit (qty_entry a) \<or>
           (list_all py_isdecimal (qty_entry a) \<and> digits_val (qty_entry a) = 0)"
  shows "\<exists>msg. add_to_cart a = (a, ShowError ''Error'' msg)"
proof (cases "str_isdigit (qty_entry a)")
  case False
  then show ?thesis by (simp add: add_to_cart_def Let_def)
next
  case True
  with assms have "list_all py_isdecimal (qty_entry a)" and "digits_val (qty_entry a) = 0"
    by auto
  then show ?thesis
    using True by (simp add: add_to_cart_def Let_def py_int_isdigit)
qed

text \<open>
  A quantity text that passes \<open>isdigit\<close> without being all decimal makes \<open>int\<close>
  raise; nothing catches the exception.
\<close>

lemma add_to_cart_uncaught:
  assumes "product_var a \<noteq> []" and "str_isdigit (qty_entry a)"
    and "\<not> list_all py_isdecimal (qty_entry a)"
  shows "add_to_cart a = (a, Uncaught ValueError)"
  using assms by (simp add: add_to_cart_def Let_def py_int_isdigit)

lemma parse_catalog:
  "map parse_product catalog =
     [Inr (''Laptop'', 800), Inr (''Smartphone'', 500), Inr (''Tablet'', 300),
      Inr (''Headphones'', 100), Inr (''Smartwatch'', 150), Inr (''Gaming Console'', 600),
      Inr (''4K Monitor'', 400), Inr (''Mechanical Keyboard'', 120), Inr (''Wireless Mouse'', 40),
      Inr (''External Hard Drive'', 120)]"
  by code_simp

lemma catalog_parses:
  assumes "p \<in> set catalog"
  shows "p \<noteq> [] \<and> (\<exists>name price. parse_product p = Inr (name, price))"
proof -
  have "p \<noteq> []" using assms by (auto simp: catalog_def)
  moreover have "parse_product p \<in> set (map parse_product catalog)"
    using assms by simp
  then have "\<exists>name price. parse_product p = Inr (name, price)"
    unfolding parse_catalog by auto
  ultimately show ?thesis by simp
qed

text \<open>
  For a product of the catalog and a quantity text of decimal digits with a positive
  value, the line is appended to the cart and the quantity entry is reset to \<open>1\<close>.
\<close>

lemma add_to_cart_appends:
  assumes "product_var a \<in> set catalog"
    and "list_all py_isdecimal (qty_entry a)" and "qty_entry a \<noteq> []"
    and "0 < digits_val (qty_entry a)"
  shows "\<exists>name price.
           parse_product (product_var a) = Inr (name, price) \<and>
           add_to_cart a =
             (a\<lparr>cart := cart a @ [(name, price, int (digits_val (qty_entry a)))],
                qty_entry := ''1''\<rparr>, NoDialog)"
proof -
  from catalog_parses [OF assms(1)] obtain name price where
    p: "product_var a \<noteq> []" "parse_product (product_var a) = Inr (name, price)"
    by auto
  have d: "str_isdigit (qty_entry a)"
    using assms(2,3) by (rule decimal_isdigit)
  show ?thesis
    using p d assms(2,4) by (simp add: add_to_cart_def Let_def py_int_isdigit)
qed

text \<open>
  Claim C6, at the input where the code departs from it. The quantity text is the
  single character U+00B2 (superscript two), which is not a string of decimal digits.
  \<open>isdigit\<close> accepts it, so the guard goes on to \<open>int(qty_text)\<close>, which raises
  \<open>ValueError\<close> outside the \<open>try\<close> block: the handler ends without showing any error
  message. The cart is unchanged. (\<open>add_to_cart_rejects\<close> and \<open>add_to_cart_appends\<close>
  above show that the claim holds for every other kind of quantity text.)
\<close>

theorem add_to_cart_superscript_digit:
  "str_isdigit [CHR 0xB2] \<and>
   py_int [CHR 0xB2] = Inl ValueError \<and>
   add_to_cart (sample_app\<lparr>qty_entry := [CHR 0xB2]\<rparr>) =
     (sample_app\<lparr>qty_entry := [CHR 0xB2]\<rparr>, Uncaught ValueError)"
proof -
  have d: "str_isdigit [CHR 0xB2]"
    by (simp add: str_isdigit_def py_isdigit_def py_isdecimal_def)
  have n: "\<not> list_all py_isdecimal [CHR 0xB2]"
    by (simp add: py_isdecimal_def)
  have "py_int [CHR 0xB2] = Inl ValueError"
    using n by (simp add: py_int_isdigit [OF d])
  moreover have "add_to_cart (sample_app\<lparr>qty_entry := [CHR 0xB2]\<rparr>) =
     (sample_app\<lparr>qty_entry := [CHR 0xB2]\<rparr>, Uncaught ValueError)"
    by (rule add_to_cart_uncaught) (simp_all add: d py_isdecimal_def sample_app_def)
  ultimately show ?thesis using d by simp
qed

section \<open>Properties of invoice rendering\<close>








text \<open>On the first page the break comes after the 28th row.\<close>

lemma page_break_after_28:
  "row_positions A4_height (A4_height - 200) 30 ! 27 = A4_height - 740 \<and>
   row_positions A4_height (A4_height - 200) 30 ! 28 = A4_height - 50"
  by code_simp

section \<open>Properties of the export handlers\<close>









end
